theory Spec2Isabelle
  imports Main
begin

section \<open>Python values and dictionaries\<close>

text \<open>
  A field descriptor is a Python \<^verbatim>\<open>dict\<close> from string keys to arbitrary values.  The values
  that the DDL compiler inspects are \<^verbatim>\<open>None\<close>, booleans, numbers, strings, members of an
  \<^verbatim>\<open>Enum\<close> class (of which only \<^verbatim>\<open>.value\<close> is read), nested dictionaries with string
  keys (\<^verbatim>\<open>db_field_types\<close>) and other objects that are only passed on, such as function
  objects used as defaults.  A dictionary is an association list whose lookup takes the
  first binding of a key.
\<close>

datatype pyval =
    PNone
  | PBool bool
  | PInt int
  | PStr string
  | PEnum string pyval
  | PDict "(string \<times> pyval) list"
  | PObject string

type_synonym py_dict = "(string \<times> pyval) list"

datatype error =
    NotImplementedError
  | AttributeError
  | KeyError string
  | ValueError
  | OtherError string

text \<open>\<^verbatim>\<open>d.get(key, default)\<close> on the contents of a dictionary; it never raises.\<close>

definition dict_get :: "py_dict \<Rightarrow> string \<Rightarrow> pyval \<Rightarrow> pyval" where
  "dict_get d key dflt = (case map_of d key of None \<Rightarrow> dflt | Some v \<Rightarrow> v)"

text \<open>
  The descriptor is a mutable object shared with the caller, so every method that receives it
  returns, next to its result, the descriptor as the call leaves it.  A read is the state
  operation that returns the value and the dictionary it found.
\<close>

definition st_get :: "py_dict \<Rightarrow> string \<Rightarrow> pyval \<Rightarrow> pyval \<times> py_dict" where
  "st_get field_describe key dflt = (dict_get field_describe key dflt, field_describe)"

text \<open>
  \<^verbatim>\<open>obj.get(key, default)\<close> on a value: an object that is not a dictionary has no
  attribute \<^verbatim>\<open>get\<close>.
\<close>

definition attr_get :: "pyval \<Rightarrow> string \<Rightarrow> pyval \<Rightarrow> error + pyval" where
  "attr_get obj key dflt =
     (case obj of PDict d \<Rightarrow> Inr (dict_get d key dflt) | _ \<Rightarrow> Inl AttributeError)"

text \<open>Truth value of an object in a condition (members of a plain \<^verbatim>\<open>Enum\<close> and other
  objects are true).\<close>

fun truthy :: "pyval \<Rightarrow> bool" where
  "truthy PNone = False"
| "truthy (PBool b) = b"
| "truthy (PInt i) = (i \<noteq> 0)"
| "truthy (PStr s) = (s \<noteq> [])"
| "truthy (PEnum n v) = True"
| "truthy (PDict d) = (d \<noteq> [])"
| "truthy (PObject r) = True"

text \<open>\<^verbatim>\<open>isinstance(x, Enum)\<close> and \<^verbatim>\<open>x.value\<close>.\<close>

fun isinstance_Enum :: "pyval \<Rightarrow> bool" where
  "isinstance_Enum (PEnum n v) = True"
| "isinstance_Enum _ = False"

fun enum_value :: "pyval \<Rightarrow> pyval" where
  "enum_value (PEnum n v) = v"
| "enum_value x = x"

text \<open>\<^verbatim>\<open>x in [s1, s2, ...]\<close> for a list of string literals: only a string equals a string.\<close>

fun in_strs :: "pyval \<Rightarrow> string list \<Rightarrow> bool" where
  "in_strs (PStr s) xs = (s \<in> set xs)"
| "in_strs _ xs = False"

section \<open>String formatting\<close>

text \<open>
  \<^verbatim>\<open>template.format(**kwargs)\<close> for templates with named replacement fields.  The second
  argument is the name of the field being read, if any.  \<^verbatim>\<open>{{\<close> and \<^verbatim>\<open>}}\<close> stand for
  a brace, a lone \<^verbatim>\<open>}\<close> or an unclosed field is a \<^verbatim>\<open>ValueError\<close>, a name without
  keyword argument is a \<^verbatim>\<open>KeyError\<close>; keyword arguments that the template does not name
  are ignored, and the values substituted are not read again.
\<close>

fun format_aux :: "(string \<times> string) list \<Rightarrow> string option \<Rightarrow> string \<Rightarrow> error + string" where
  "format_aux kw None [] = Inr []"
| "format_aux kw (Some name) [] = Inl ValueError"
| "format_aux kw (Some name) (c # cs) =
     (if c = CHR ''}'' then
        (case map_of kw name of
           None \<Rightarrow> Inl (KeyError name)
         | Some v \<Rightarrow> (case format_aux kw None cs of Inl e \<Rightarrow> Inl e | Inr r \<Rightarrow> Inr (v @ r)))
      else format_aux kw (Some (name @ [c])) cs)"
| "format_aux kw None (c # cs) =
     (if c = CHR ''{'' then
        (case cs of
           [] \<Rightarrow> Inl ValueError
         | c' # cs' \<Rightarrow>
            if c' = CHR ''{'' then
              (case format_aux kw None cs' of Inl e \<Rightarrow> Inl e | Inr r \<Rightarrow> Inr (CHR ''{'' # r))
            else format_aux kw (Some []) cs)
      else if c = CHR ''}'' then
        (case cs of
           [] \<Rightarrow> Inl ValueError
         | c' # cs' \<Rightarrow>
            if c' = CHR ''}'' then
              (case format_aux kw None cs' of Inl e \<Rightarrow> Inl e | Inr r \<Rightarrow> Inr (CHR ''}'' # r))
            else Inl ValueError)
      else (case format_aux kw None cs of Inl e \<Rightarrow> Inl e | Inr r \<Rightarrow> Inr (c # r)))"

definition format :: "string \<Rightarrow> (string \<times> string) list \<Rightarrow> error + string" where
  "format template kw = format_aux kw None template"

text \<open>\<^verbatim>\<open>sep.join(xs)\<close>.\<close>

fun join :: "string \<Rightarrow> string list \<Rightarrow> string" where
  "join sep [] = []"
| "join sep [x] = x"
| "join sep (x # y # ys) = x @ sep @ join sep (y # ys)"

section \<open>Collaborators\<close>

text \<open>
  The model class exposes its metadata; the compiler reads the table name only.
\<close>

record meta =
  db_table :: string
  db_pk_column :: string

record model =
  meta :: meta

text \<open>
  The schema generator of the ORM is outside the repository.  Each of its methods is a
  parameter; a method either returns or raises.
\<close>

record schema_generator =
  column_default_generator :: "string \<Rightarrow> pyval \<Rightarrow> pyval \<Rightarrow> pyval \<Rightarrow> pyval \<Rightarrow> error + string"
  escape_default_value :: "pyval \<Rightarrow> error + pyval"
  create_string :: "pyval \<Rightarrow> pyval \<Rightarrow> string \<Rightarrow> string \<Rightarrow> string \<Rightarrow> bool \<Rightarrow> string \<Rightarrow> error + string"
  column_comment_generator :: "string \<Rightarrow> pyval \<Rightarrow> pyval \<Rightarrow> error + string"
  generate_index_name :: "string \<Rightarrow> model \<Rightarrow> string list \<Rightarrow> error + string"
  quote :: "string \<Rightarrow> error + string"

text \<open>
  An instance of \<^verbatim>\<open>BaseDDL\<close> or of a subclass: the class attribute \<^verbatim>\<open>DIALECT\<close> and the
  schema generator.  Two functions that the methods call and that are not defined in this
  module are carried along as parameters: \<^verbatim>\<open>is_default_function\<close> of \<^verbatim>\<open>aerich.utils\<close>
  (the truth value of what it returns) and the text that \<^verbatim>\<open>str.format\<close> substitutes for an
  object that is not a string.
\<close>

record BaseDDL =
  DIALECT :: string
  schema_generator :: schema_generator
  is_default_function :: "pyval \<Rightarrow> bool"
  object_str :: "pyval \<Rightarrow> string"

definition py_str :: "BaseDDL \<Rightarrow> pyval \<Rightarrow> string" where
  "py_str self v = (case v of PStr s \<Rightarrow> s | _ \<Rightarrow> object_str self v)"

text \<open>\<^verbatim>\<open>SqliteSchemaGenerator.DIALECT\<close>, a constant of the ORM.\<close>

definition SqliteSchemaGenerator_DIALECT :: string where
  "SqliteSchemaGenerator_DIALECT = ''sqlite''"

section \<open>Templates of \<^verbatim>\<open>BaseDDL\<close>\<close>

definition DROP_TABLE_TEMPLATE :: string where
  \<open>DROP_TABLE_TEMPLATE = ''DROP TABLE IF EXISTS "{table_name}"''\<close>

definition ADD_COLUMN_TEMPLATE :: string where
  \<open>ADD_COLUMN_TEMPLATE = ''ALTER TABLE "{table_name}" ADD {column}''\<close>

definition ALTER_DEFAULT_TEMPLATE :: string where
  \<open>ALTER_DEFAULT_TEMPLATE = ''ALTER TABLE "{table_name}" ALTER COLUMN "{column}" {default}''\<close>

definition ADD_INDEX_TEMPLATE :: string where
  \<open>ADD_INDEX_TEMPLATE =
     ''ALTER TABLE "{table_name}" ADD {unique}INDEX "{index_name}" ({column_names})''\<close>

definition DROP_INDEX_TEMPLATE :: string where
  \<open>DROP_INDEX_TEMPLATE = ''ALTER TABLE "{table_name}" DROP INDEX "{index_name}"''\<close>

definition MODIFY_COLUMN_TEMPLATE :: string where
  \<open>MODIFY_COLUMN_TEMPLATE = ''ALTER TABLE "{table_name}" MODIFY COLUMN {column}''\<close>

definition RENAME_TABLE_TEMPLATE :: string where
  \<open>RENAME_TABLE_TEMPLATE = ''ALTER TABLE "{old_table_name}" RENAME TO "{new_table_name}"''\<close>

section \<open>Methods of \<^verbatim>\<open>BaseDDL\<close>\<close>

definition drop_table :: "BaseDDL \<Rightarrow> string \<Rightarrow> error + string" where
  "drop_table self table_name = format DROP_TABLE_TEMPLATE [(''table_name'', table_name)]"

definition drop_m2m :: "BaseDDL \<Rightarrow> string \<Rightarrow> error + string" where
  "drop_m2m self table_name = format DROP_TABLE_TEMPLATE [(''table_name'', table_name)]"

text \<open>
  \<^verbatim>\<open>_get_default\<close>.  The result is \<^verbatim>\<open>None\<close> or a string.  Both calls into the schema
  generator are inside the \<^verbatim>\<open>try\<close> block, so a \<^verbatim>\<open>NotImplementedError\<close> of either is
  caught; any other exception leaves the method.
\<close>

definition get_default :: "BaseDDL \<Rightarrow> model \<Rightarrow> py_dict \<Rightarrow> (error + string option) \<times> py_dict" where
  "get_default self model field_describe =
     (let db_table = db_table (meta model);
          (default', fd1) = st_get field_describe ''default'' PNone;
          default' = (if isinstance_Enum default' then enum_value default' else default');
          (db_column, fd2) = st_get fd1 ''db_column'' PNone;
          (auto_now_add, fd3) = st_get fd2 ''auto_now_add'' (PBool False);
          (auto_now, fd4) = st_get fd3 ''auto_now'' (PBool False)
      in if default' \<noteq> PNone \<or> truthy auto_now_add then
           (let (field_type, fd5) = st_get fd4 ''field_type'' PNone
            in if in_strs field_type [''UUIDField'', ''TextField'', ''JSONField'']
                  \<or> is_default_function self default'
               then (Inr (Some ''''), fd5)
               else
                 (case (case escape_default_value (schema_generator self) default' of
                          Inl e \<Rightarrow> Inl e
                        | Inr escaped \<Rightarrow>
                            column_default_generator (schema_generator self)
                              db_table db_column escaped auto_now_add auto_now) of
                    Inl NotImplementedError \<Rightarrow> (Inr (Some ''''), fd5)
                  | Inl e \<Rightarrow> (Inl e, fd5)
                  | Inr s \<Rightarrow> (Inr (Some s), fd5)))
         else (Inr None, fd4))"

text \<open>
  \<^verbatim>\<open>_add_or_modify_column\<close>.  The keyword arguments of \<^verbatim>\<open>_create_string\<close> are evaluated
  from left to right: the column type, the nullability clause, the comment, and then the
  call itself.
\<close>

definition add_or_modify_column ::
  "BaseDDL \<Rightarrow> model \<Rightarrow> py_dict \<Rightarrow> bool \<Rightarrow> bool \<Rightarrow> (error + string) \<times> py_dict" where
  "add_or_modify_column self model field_describe is_pk modify =
     (let db_table = db_table (meta model);
          (description, fd1) = st_get field_describe ''description'' PNone;
          (db_column, fd2) = st_get fd1 ''db_column'' PNone;
          (db_field_types, fd3) = st_get fd2 ''db_field_types'' PNone;
          (r, fd4) = get_default self model fd3
      in case r of
           Inl e \<Rightarrow> (Inl e, fd4)
         | Inr default' \<Rightarrow>
            (let default' = (case default' of None \<Rightarrow> '''' | Some s \<Rightarrow> s);
                 (unique, template, fd5) =
                   (if modify then ('''', MODIFY_COLUMN_TEMPLATE, fd4)
                    else
                      (let (u, fd5) = st_get fd4 ''unique'' PNone
                       in (if truthy u \<and> DIALECT self \<noteq> SqliteSchemaGenerator_DIALECT
                           then ''UNIQUE'' else '''',
                           ADD_COLUMN_TEMPLATE, fd5)))
             in case attr_get db_field_types '''' PNone of
                  Inl e \<Rightarrow> (Inl e, fd5)
                | Inr fallback \<Rightarrow>
                   (case attr_get db_field_types (DIALECT self) fallback of
                      Inl e \<Rightarrow> (Inl e, fd5)
                    | Inr field_type \<Rightarrow>
                       (let (n, fd6) = st_get fd5 ''nullable'' PNone;
                            nullable = (if \<not> truthy n then ''NOT NULL'' else '''')
                        in case (if truthy description
                                 then column_comment_generator (schema_generator self)
                                        db_table db_column description
                                 else Inr '''') of
                             Inl e \<Rightarrow> (Inl e, fd6)
                           | Inr comment \<Rightarrow>
                              (case create_string (schema_generator self) db_column field_type
                                      nullable unique comment is_pk default' of
                                 Inl e \<Rightarrow> (Inl e, fd6)
                               | Inr column \<Rightarrow>
                                  (format template
                                     [(''table_name'', db_table), (''column'', column)],
                                   fd6))))))"

definition add_column :: "BaseDDL \<Rightarrow> model \<Rightarrow> py_dict \<Rightarrow> bool \<Rightarrow> (error + string) \<times> py_dict" where
  "add_column self model field_describe is_pk =
     add_or_modify_column self model field_describe is_pk False"

definition modify_column :: "BaseDDL \<Rightarrow> model \<Rightarrow> py_dict \<Rightarrow> bool \<Rightarrow> (error + string) \<times> py_dict" where
  "modify_column self model field_describe is_pk =
     add_or_modify_column self model field_describe is_pk True"

text \<open>The generator expression \<^verbatim>\<open>quote(f) for f in field_names\<close>, consumed in order.\<close>

fun quote_each :: "schema_generator \<Rightarrow> string list \<Rightarrow> error + string list" where
  "quote_each sg [] = Inr []"
| "quote_each sg (f # fs) =
     (case quote sg f of
        Inl e \<Rightarrow> Inl e
      | Inr q \<Rightarrow> (case quote_each sg fs of Inl e \<Rightarrow> Inl e | Inr qs \<Rightarrow> Inr (q # qs)))"

definition add_index :: "BaseDDL \<Rightarrow> model \<Rightarrow> string list \<Rightarrow> bool \<Rightarrow> error + string" where
  "add_index self model field_names unique =
     (case generate_index_name (schema_generator self)
             (if \<not> unique then ''idx'' else ''uid'') model field_names of
        Inl e \<Rightarrow> Inl e
      | Inr index_name \<Rightarrow>
         (case quote_each (schema_generator self) field_names of
            Inl e \<Rightarrow> Inl e
          | Inr quoted \<Rightarrow>
             format ADD_INDEX_TEMPLATE
               [(''unique'', if unique then ''UNIQUE '' else ''''),
                (''index_name'', index_name),
                (''table_name'', db_table (meta model)),
                (''column_names'', join '', '' quoted)]))"

definition drop_index :: "BaseDDL \<Rightarrow> model \<Rightarrow> string list \<Rightarrow> bool \<Rightarrow> error + string" where
  "drop_index self model field_names unique =
     (case generate_index_name (schema_generator self)
             (if \<not> unique then ''idx'' else ''uid'') model field_names of
        Inl e \<Rightarrow> Inl e
      | Inr index_name \<Rightarrow>
         format DROP_INDEX_TEMPLATE
           [(''index_name'', index_name), (''table_name'', db_table (meta model))])"

definition alter_column_default ::
  "BaseDDL \<Rightarrow> model \<Rightarrow> py_dict \<Rightarrow> (error + string) \<times> py_dict" where
  "alter_column_default self model field_describe =
     (let db_table = db_table (meta model);
          (r, fd1) = get_default self model field_describe
      in case r of
           Inl e \<Rightarrow> (Inl e, fd1)
         | Inr default' \<Rightarrow>
            (let (column, fd2) = st_get fd1 ''db_column'' PNone
             in (format ALTER_DEFAULT_TEMPLATE
                   [(''table_name'', db_table),
                    (''column'', py_str self column),
                    (''default'',
                       case default' of Some s \<Rightarrow> ''SET'' @ s | None \<Rightarrow> ''DROP DEFAULT'')],
                 fd2)))"

definition alter_column_null :: "BaseDDL \<Rightarrow> model \<Rightarrow> py_dict \<Rightarrow> (error + string) \<times> py_dict" where
  "alter_column_null self model field_describe = modify_column self model field_describe False"

definition set_comment :: "BaseDDL \<Rightarrow> model \<Rightarrow> py_dict \<Rightarrow> (error + string) \<times> py_dict" where
  "set_comment self model field_describe = modify_column self model field_describe False"

definition rename_table :: "BaseDDL \<Rightarrow> model \<Rightarrow> string \<Rightarrow> string \<Rightarrow> error + string" where
  "rename_table self model old_table_name new_table_name =
     (let db_table = db_table (meta model)
      in format RENAME_TABLE_TEMPLATE
           [(''table_name'', db_table),
            (''old_table_name'', old_table_name),
            (''new_table_name'', new_table_name)])"

section \<open>Example instances\<close>

text \<open>
  Concrete collaborators on which the methods can be evaluated.  \<open>example_generator\<close>
  renders columns, defaults and comments the way a MySQL-like generator does;
  \<open>base_generator\<close> differs in the default and comment generators, which raise
  \<^verbatim>\<open>NotImplementedError\<close> as those of the abstract generator do.
\<close>

definition example_text :: "pyval \<Rightarrow> string" where
  "example_text v =
     (case v of
        PNone \<Rightarrow> ''None''
      | PBool b \<Rightarrow> (if b then ''True'' else ''False'')
      | PStr s \<Rightarrow> s
      | PEnum n x \<Rightarrow> n
      | PObject r \<Rightarrow> r
      | _ \<Rightarrow> ''?'')"

definition example_pad :: "string \<Rightarrow> string" where
  "example_pad s = (if s = [] then [] else '' '' @ s)"

definition example_generator :: schema_generator where
  \<open>example_generator =
     \<lparr> column_default_generator =
         (\<lambda>table column value auto_now_add auto_now. Inr ('' DEFAULT '' @ example_text value)),
       escape_default_value =
         (\<lambda>value. Inr (case value of PStr s \<Rightarrow> PStr (CHR 0x27 # s @ [CHR 0x27]) | _ \<Rightarrow> value)),
       create_string =
         (\<lambda>db_column field_type nullable unique comment is_pk dflt.
            Inr (''"'' @ example_text db_column @ ''" '' @ example_text field_type
                 @ example_pad nullable @ example_pad unique
                 @ (if is_pk then '' PRIMARY KEY'' else '''') @ dflt @ comment)),
       column_comment_generator =
         (\<lambda>table column comment. Inr ('' COMMENT '' @ example_text comment)),
       generate_index_name =
         (\<lambda>prefix model field_names.
            Inr (prefix @ ''_'' @ db_table (meta model) @ ''_'' @ join ''_'' field_names)),
       quote = (\<lambda>f. Inr (''"'' @ f @ ''"'')) \<rparr>\<close>

definition base_generator :: schema_generator where
  "base_generator =
     example_generator
       \<lparr> column_default_generator :=
           (\<lambda>table column value auto_now_add auto_now. Inl NotImplementedError),
         column_comment_generator := (\<lambda>table column comment. Inl NotImplementedError) \<rparr>"

definition example_ddl :: "string \<Rightarrow> schema_generator \<Rightarrow> BaseDDL" where
  "example_ddl dialect sg =
     \<lparr> DIALECT = dialect,
       schema_generator = sg,
       is_default_function =
         (\<lambda>v. case v of PStr s \<Rightarrow> take 10 s = ''<function '' | PObject r \<Rightarrow> True | _ \<Rightarrow> False),
       object_str = example_text \<rparr>"

definition user_model :: model where
  "user_model = \<lparr> meta = \<lparr> db_table = ''user'', db_pk_column = ''id'' \<rparr> \<rparr>"

definition order_model :: model where
  "order_model = \<lparr> meta = \<lparr> db_table = ''order'', db_pk_column = ''id'' \<rparr> \<rparr>"

text \<open>A unique, non-null string column without default.\<close>

definition email_field :: py_dict where
  "email_field =
     [(''db_column'', PStr ''email''),
      (''field_type'', PStr ''CharField''),
      (''db_field_types'', PDict [('''', PStr ''VARCHAR(200)'')]),
      (''nullable'', PBool False),
      (''unique'', PBool True)]"

text \<open>A text column with a literal default.\<close>

definition bio_field :: py_dict where
  "bio_field =
     [(''db_column'', PStr ''bio''),
      (''field_type'', PStr ''TextField''),
      (''db_field_types'', PDict [('''', PStr ''TEXT''), (''mysql'', PStr ''LONGTEXT'')]),
      (''nullable'', PBool True),
      (''default'', PStr ''n/a'')]"

text \<open>A string column whose default is a member of an enumeration.\<close>

definition status_field :: py_dict where
  "status_field =
     [(''db_column'', PStr ''status''),
      (''field_type'', PStr ''CharField''),
      (''db_field_types'', PDict [('''', PStr ''VARCHAR(8)'')]),
      (''nullable'', PBool False),
      (''default'', PEnum ''Status.ACTIVE'' (PStr ''active'')),
      (''description'', PNone)]"

text \<open>A string column whose default is computed by a function.\<close>

definition token_field :: py_dict where
  "token_field =
     [(''db_column'', PStr ''token''),
      (''field_type'', PStr ''CharField''),
      (''db_field_types'', PDict [('''', PStr ''VARCHAR(32)'')]),
      (''nullable'', PBool False),
      (''default'', PStr ''<function new_token at 0x7f3a>'')]"

section \<open>Rendering of the templates\<close>

lemma format_DROP_TABLE:
  \<open>format DROP_TABLE_TEMPLATE [(''table_name'', t)] = Inr (''DROP TABLE IF EXISTS "'' @ t @ ''"'')\<close>
  by (simp add: format_def DROP_TABLE_TEMPLATE_def)

lemma format_RENAME_TABLE:
  \<open>format RENAME_TABLE_TEMPLATE
      [(''table_name'', t), (''old_table_name'', a), (''new_table_name'', b)]
     = Inr (''ALTER TABLE "'' @ a @ ''" RENAME TO "'' @ b @ ''"'')\<close>
  by (simp add: format_def RENAME_TABLE_TEMPLATE_def)

lemma format_ADD_COLUMN:
  \<open>format ADD_COLUMN_TEMPLATE [(''table_name'', t), (''column'', c)]
     = Inr (''ALTER TABLE "'' @ t @ ''" ADD '' @ c)\<close>
  by (simp add: format_def ADD_COLUMN_TEMPLATE_def)

lemma format_MODIFY_COLUMN:
  \<open>format MODIFY_COLUMN_TEMPLATE [(''table_name'', t), (''column'', c)]
     = Inr (''ALTER TABLE "'' @ t @ ''" MODIFY COLUMN '' @ c)\<close>
  by (simp add: format_def MODIFY_COLUMN_TEMPLATE_def)

lemma format_ALTER_DEFAULT:
  \<open>format ALTER_DEFAULT_TEMPLATE [(''table_name'', t), (''column'', c), (''default'', d)]
     = Inr (''ALTER TABLE "'' @ t @ ''" ALTER COLUMN "'' @ c @ ''" '' @ d)\<close>
  by (simp add: format_def ALTER_DEFAULT_TEMPLATE_def)

lemma format_ADD_INDEX:
  \<open>format ADD_INDEX_TEMPLATE
      [(''unique'', u), (''index_name'', i), (''table_name'', t), (''column_names'', c)]
     = Inr (''ALTER TABLE "'' @ t @ ''" ADD '' @ u @ ''INDEX "'' @ i @ ''" ('' @ c @ '')'')\<close>
  by (simp add: format_def ADD_INDEX_TEMPLATE_def)

lemma format_DROP_INDEX:
  \<open>format DROP_INDEX_TEMPLATE [(''index_name'', i), (''table_name'', t)]
     = Inr (''ALTER TABLE "'' @ t @ ''" DROP INDEX "'' @ i @ ''"'')\<close>
  by (simp add: format_def DROP_INDEX_TEMPLATE_def)

section \<open>Default resolution and the column routine, step by step\<close>

lemma enum_subst: "(if isinstance_Enum d then enum_value d else d) = enum_value d"
  by (cases d) simp_all

lemma snd_get_default: "snd (get_default self model fd) = fd"
  by (simp add: get_default_def st_get_def Let_def split: sum.split error.split)

lemma get_default_pair: "get_default self model fd = (fst (get_default self model fd), fd)"
  using snd_get_default [of self model fd] by (cases "get_default self model fd") simp

lemma fst_get_default:
  "fst (get_default self model fd) =
     (let d = enum_value (dict_get fd ''default'' PNone);
          a = dict_get fd ''auto_now_add'' (PBool False)
      in if d \<noteq> PNone \<or> truthy a then
           if in_strs (dict_get fd ''field_type'' PNone) [''UUIDField'', ''TextField'', ''JSONField'']
              \<or> is_default_function self d
           then Inr (Some '''')
           else
             (case (case escape_default_value (schema_generator self) d of
                      Inl e \<Rightarrow> Inl e
                    | Inr escaped \<Rightarrow>
                        column_default_generator (schema_generator self) (db_table (meta model))
                          (dict_get fd ''db_column'' PNone) escaped a
                          (dict_get fd ''auto_now'' (PBool False))) of
                Inl NotImplementedError \<Rightarrow> Inr (Some '''')
              | Inl e \<Rightarrow> Inl e
              | Inr s \<Rightarrow> Inr (Some s))
         else Inr None)"
  by (simp add: get_default_def st_get_def Let_def enum_subst split: sum.split error.split)

lemma snd_add_or_modify_column: "snd (add_or_modify_column self model fd is_pk modify) = fd"
proof -
  obtain r where g: "get_default self model fd = (r, fd)"
    using get_default_pair by blast
  show ?thesis
  proof (cases modify)
    case True
    then show ?thesis
      by (simp add: add_or_modify_column_def st_get_def g attr_get_def Let_def
            split: sum.split pyval.split)
  next
    case False
    then show ?thesis
      by (simp add: add_or_modify_column_def st_get_def g attr_get_def Let_def
            split: sum.split pyval.split)
  qed
qed

lemma fst_add_or_modify_column:
  assumes "fst (get_default self model fd) = Inr d"
    and "dict_get fd ''db_field_types'' PNone = PDict types"
    and "(if truthy (dict_get fd ''description'' PNone)
          then column_comment_generator (schema_generator self) (db_table (meta model))
                 (dict_get fd ''db_column'' PNone) (dict_get fd ''description'' PNone)
          else Inr '''') = Inr comment"
  shows \<open>fst (add_or_modify_column self model fd is_pk modify) =
     (case create_string (schema_generator self)
             (dict_get fd ''db_column'' PNone)
             (case map_of types (DIALECT self) of
                Some v \<Rightarrow> v
              | None \<Rightarrow> dict_get types '''' PNone)
             (if \<not> truthy (dict_get fd ''nullable'' PNone) then ''NOT NULL'' else '''')
             (if \<not> modify \<and> truthy (dict_get fd ''unique'' PNone)
                 \<and> DIALECT self \<noteq> SqliteSchemaGenerator_DIALECT
              then ''UNIQUE'' else '''')
             comment is_pk
             (case d of None \<Rightarrow> '''' | Some s \<Rightarrow> s) of
        Inl e \<Rightarrow> Inl e
      | Inr column \<Rightarrow>
          Inr (''ALTER TABLE "'' @ db_table (meta model) @ ''" ''
               @ (if modify then ''MODIFY COLUMN '' else ''ADD '') @ column))\<close>
proof -
  have g: "get_default self model fd = (Inr d, fd)"
    using get_default_pair [of self model fd] assms(1) by simp
  have t: "attr_get (PDict types) k v = Inr (dict_get types k v)" for k v
    by (simp add: attr_get_def)
  have m: "dict_get types (DIALECT self) v =
        (case map_of types (DIALECT self) of Some w \<Rightarrow> w | None \<Rightarrow> v)" for v
    by (simp add: dict_get_def split: option.split)
  show ?thesis
  proof (cases modify)
    case True
    then show ?thesis
      using assms(3)
      by (simp add: add_or_modify_column_def st_get_def g assms(2) t m Let_def
            format_MODIFY_COLUMN split: sum.split)
  next
    case False
    then show ?thesis
      using assms(3)
      by (simp add: add_or_modify_column_def st_get_def g assms(2) t m Let_def
            format_ADD_COLUMN split: sum.split)
  qed
qed

lemma snd_alter_column_default: "snd (alter_column_default self model fd) = fd"
proof -
  obtain r where g: "get_default self model fd = (r, fd)"
    using get_default_pair by blast
  show ?thesis
    by (simp add: alter_column_default_def st_get_def Let_def g split: sum.split)
qed

lemma fst_alter_column_default:
  \<open>fst (alter_column_default self model fd) =
     (case fst (get_default self model fd) of
        Inl e \<Rightarrow> Inl e
      | Inr d \<Rightarrow>
          Inr (''ALTER TABLE "'' @ db_table (meta model) @ ''" ALTER COLUMN "''
               @ py_str self (dict_get fd ''db_column'' PNone) @ ''" ''
               @ (case d of Some s \<Rightarrow> ''SET'' @ s | None \<Rightarrow> ''DROP DEFAULT'')))\<close>
proof -
  obtain r where g: "get_default self model fd = (r, fd)"
    using get_default_pair by blast
  show ?thesis
    by (simp add: alter_column_default_def st_get_def Let_def g format_ALTER_DEFAULT
          split: sum.split)
qed

text \<open>A dictionary that has no key but the empty one resolves every key to that entry.\<close>

lemma resolve_only_fallback:
  assumes "fst ` set types \<subseteq> {''''}"
  shows "(case map_of types k of Some v \<Rightarrow> v | None \<Rightarrow> dict_get types '''' PNone)
           = dict_get types '''' PNone"
proof (cases "k = ''''")
  case True
  then show ?thesis by (simp add: dict_get_def split: option.split)
next
  case False
  with assms have "k \<notin> fst ` set types" by auto
  then have "map_of types k = None" by (simp add: map_of_eq_None_iff)
  then show ?thesis by simp
qed

section \<open>Dropping and renaming tables\<close>

text \<open>
  Claim C7.  \<^verbatim>\<open>drop_table\<close> and \<^verbatim>\<open>drop_m2m\<close> are the same function: for every table name
  both return exactly \<^verbatim>\<open>DROP TABLE IF EXISTS "<name>"\<close>, always with the \<^verbatim>\<open>IF EXISTS\<close>
  guard.  The text depends on the name only, so a repeated call yields the same statement.
\<close>

theorem drop_table_drop_m2m_same:
  \<open>drop_table self table_name = Inr (''DROP TABLE IF EXISTS "'' @ table_name @ ''"'')
   \<and> drop_m2m self table_name = Inr (''DROP TABLE IF EXISTS "'' @ table_name @ ''"'')
   \<and> drop_table = drop_m2m\<close>
proof -
  have "drop_table = drop_m2m"
    by (intro ext) (simp add: drop_table_def drop_m2m_def)
  then show ?thesis
    by (simp add: drop_m2m_def format_DROP_TABLE)
qed

theorem drop_table_drop_m2m_same_witness:
  \<open>drop_table (example_ddl ''sqlite'' example_generator) ''user_group''
     = Inr ''DROP TABLE IF EXISTS "user_group"''
   \<and> drop_m2m (example_ddl ''sqlite'' example_generator) ''user_group''
     = Inr ''DROP TABLE IF EXISTS "user_group"''\<close>
  using drop_table_drop_m2m_same [of "example_ddl ''sqlite'' example_generator" "''user_group''"]
  by simp

text \<open>
  Claim C10.  The statement of \<^verbatim>\<open>rename_table\<close> is
  \<^verbatim>\<open>ALTER TABLE "<old>" RENAME TO "<new>"\<close> and depends on the two explicit names only: two
  models, whatever their table names, give the same statement.  The method passes the model's
  table name to \<^verbatim>\<open>format\<close>, but the template has no field for it.
\<close>

theorem rename_table_ignores_model:
  \<open>rename_table self m1 old_table_name new_table_name
     = Inr (''ALTER TABLE "'' @ old_table_name @ ''" RENAME TO "'' @ new_table_name @ ''"'')
   \<and> rename_table self m1 old_table_name new_table_name
     = rename_table self m2 old_table_name new_table_name\<close>
  by (simp add: rename_table_def format_RENAME_TABLE)

theorem rename_table_ignores_model_witness:
  \<open>db_table (meta user_model) \<noteq> db_table (meta order_model)
   \<and> rename_table (example_ddl ''sql'' example_generator) user_model ''member'' ''account''
     = Inr ''ALTER TABLE "member" RENAME TO "account"''
   \<and> rename_table (example_ddl ''sql'' example_generator) order_model ''member'' ''account''
     = Inr ''ALTER TABLE "member" RENAME TO "account"''\<close>
  using rename_table_ignores_model
          [of "example_ddl ''sql'' example_generator" user_model "''member''" "''account''" order_model]
  by (auto simp: user_model_def order_model_def)

section \<open>Index names\<close>

text \<open>
  Claim C6.  \<^verbatim>\<open>add_index\<close> and \<^verbatim>\<open>drop_index\<close> obtain the index name from the same call
  of the name generator: the tag \<^verbatim>\<open>uid\<close> when \<open>unique\<close> holds and \<^verbatim>\<open>idx\<close> otherwise,
  the model and the list of field names.  Whatever name that call returns is the name in both
  statements, and when it raises both methods raise the same exception; no other state is
  consulted.  (\<^verbatim>\<open>add_index\<close> quotes the field names as well, which \<^verbatim>\<open>drop_index\<close> does
  not need.)
\<close>

theorem index_name_round_trip:
  \<open>add_index self model field_names unique =
     (case generate_index_name (schema_generator self)
             (if unique then ''uid'' else ''idx'') model field_names of
        Inl e \<Rightarrow> Inl e
      | Inr index_name \<Rightarrow>
          (case quote_each (schema_generator self) field_names of
             Inl e \<Rightarrow> Inl e
           | Inr quoted \<Rightarrow>
               Inr (''ALTER TABLE "'' @ db_table (meta model) @ ''" ADD ''
                    @ (if unique then ''UNIQUE '' else '''')
                    @ ''INDEX "'' @ index_name @ ''" ('' @ join '', '' quoted @ '')'')))
   \<and> drop_index self model field_names unique =
     (case generate_index_name (schema_generator self)
             (if unique then ''uid'' else ''idx'') model field_names of
        Inl e \<Rightarrow> Inl e
      | Inr index_name \<Rightarrow>
          Inr (''ALTER TABLE "'' @ db_table (meta model) @ ''" DROP INDEX "''
               @ index_name @ ''"''))\<close>
  by (simp add: add_index_def drop_index_def format_ADD_INDEX format_DROP_INDEX
        split: sum.split)

theorem index_name_round_trip_witness:
  \<open>add_index (example_ddl ''sql'' example_generator) user_model [''a'', ''b''] False
     = Inr ''ALTER TABLE "user" ADD INDEX "idx_user_a_b" ("a", "b")''
   \<and> drop_index (example_ddl ''sql'' example_generator) user_model [''a'', ''b''] False
     = Inr ''ALTER TABLE "user" DROP INDEX "idx_user_a_b"''\<close>
  using index_name_round_trip
          [of "example_ddl ''sql'' example_generator" user_model "[''a'', ''b'']" False]
  by (simp add: example_ddl_def example_generator_def user_model_def)

section \<open>The descriptor is only read\<close>

text \<open>
  Claim C9.  Default resolution does not change the field descriptor: after
  \<^verbatim>\<open>_get_default\<close>, \<^verbatim>\<open>add_column\<close>, \<^verbatim>\<open>modify_column\<close> and
  \<^verbatim>\<open>alter_column_default\<close> (and the two methods that reduce to \<^verbatim>\<open>modify_column\<close>) the
  descriptor is the dictionary it was before, in every outcome of the call, an exception
  included.  Nothing is remembered between calls either: a second call, made on the
  descriptor that the first call left, computes the same result again.
\<close>

theorem descriptor_unchanged:
  "snd (get_default self model fd) = fd
   \<and> snd (add_column self model fd is_pk) = fd
   \<and> snd (modify_column self model fd is_pk) = fd
   \<and> snd (alter_column_default self model fd) = fd
   \<and> snd (alter_column_null self model fd) = fd
   \<and> snd (set_comment self model fd) = fd
   \<and> get_default self model (snd (get_default self model fd)) = get_default self model fd
   \<and> add_column self model (snd (add_column self model fd is_pk)) is_pk
       = add_column self model fd is_pk
   \<and> modify_column self model (snd (modify_column self model fd is_pk)) is_pk
       = modify_column self model fd is_pk
   \<and> alter_column_default self model (snd (alter_column_default self model fd))
       = alter_column_default self model fd"
  by (simp add: snd_get_default snd_alter_column_default snd_add_or_modify_column
        add_column_def modify_column_def alter_column_null_def set_comment_def)

theorem descriptor_unchanged_witness:
  "snd (get_default (example_ddl ''sql'' example_generator) user_model status_field) = status_field
   \<and> fst (get_default (example_ddl ''sql'' example_generator) user_model status_field)
       = Inr (Some ('' DEFAULT '' @ [CHR 0x27] @ ''active'' @ [CHR 0x27]))"
  using descriptor_unchanged [of "example_ddl ''sql'' example_generator" user_model status_field False]
  by (simp add: fst_get_default example_ddl_def example_generator_def user_model_def
        status_field_def dict_get_def example_text_def)

section \<open>Default resolution\<close>

text \<open>
  Claim C4.  \<^verbatim>\<open>_get_default\<close> returns \<^verbatim>\<open>None\<close> exactly when the default of the
  descriptor, with a member of an enumeration replaced by its value, is \<^verbatim>\<open>None\<close> (or the
  key is missing) and \<^verbatim>\<open>auto_now_add\<close> is not true.  In every other case the method
  returns a string, the empty string among them, or leaves with an exception that is not
  \<^verbatim>\<open>NotImplementedError\<close>; so \<^verbatim>\<open>None\<close> is never the result of another branch.
\<close>

theorem get_default_none_iff:
  "(fst (get_default self model fd) = Inr None) =
     (enum_value (dict_get fd ''default'' PNone) = PNone
      \<and> \<not> truthy (dict_get fd ''auto_now_add'' (PBool False)))
   \<and> (enum_value (dict_get fd ''default'' PNone) \<noteq> PNone
        \<or> truthy (dict_get fd ''auto_now_add'' (PBool False)) \<longrightarrow>
      (\<exists>s. fst (get_default self model fd) = Inr (Some s))
      \<or> (\<exists>e. fst (get_default self model fd) = Inl e \<and> e \<noteq> NotImplementedError))"
  by (auto simp add: fst_get_default Let_def split: sum.split error.split)

theorem get_default_none_iff_witness:
  "fst (get_default (example_ddl ''sql'' example_generator) user_model email_field) = Inr None
   \<and> enum_value (dict_get email_field ''default'' PNone) = PNone
   \<and> \<not> truthy (dict_get email_field ''auto_now_add'' (PBool False))
   \<and> enum_value (dict_get bio_field ''default'' PNone) \<noteq> PNone
   \<and> fst (get_default (example_ddl ''sql'' example_generator) user_model bio_field) \<noteq> Inr None"
  using get_default_none_iff [of "example_ddl ''sql'' example_generator" user_model email_field]
    get_default_none_iff [of "example_ddl ''sql'' example_generator" user_model bio_field]
  by (simp add: email_field_def bio_field_def dict_get_def)

section \<open>Altering the default of a column\<close>

text \<open>
  Claim C1.  \<^verbatim>\<open>alter_column_default\<close> ends its statement with \<^verbatim>\<open>SET\<close> followed by the
  resolved default when resolution returns a string, and with \<^verbatim>\<open>DROP DEFAULT\<close> when it
  returns \<^verbatim>\<open>None\<close> (lemma \<open>fst_alter_column_default\<close>).  The claim adds that for the empty
  string the statement has no default clause and no dangling \<^verbatim>\<open>SET\<close>.  The method does not
  treat the empty string apart: for a text column with a literal default, resolution returns
  the empty string and the statement ends in a bare \<^verbatim>\<open>SET\<close>.
\<close>

theorem alter_column_default_dangling_set:
  \<open>fst (get_default (example_ddl ''postgres'' example_generator) user_model bio_field)
     = Inr (Some '''')
   \<and> fst (alter_column_default (example_ddl ''postgres'' example_generator) user_model bio_field)
     = Inr ''ALTER TABLE "user" ALTER COLUMN "bio" SET''\<close>
  by (simp add: fst_alter_column_default fst_get_default bio_field_def dict_get_def
        user_model_def py_str_def)

theorem alter_column_default_dangling_set_witness:
  \<open>\<exists>stmt. fst (alter_column_default (example_ddl ''postgres'' example_generator)
                  user_model bio_field) = Inr (stmt @ ''"bio" SET'')\<close>
  using alter_column_default_dangling_set by simp

section \<open>Adding and modifying a column\<close>

text \<open>
  Claim C2.  In \<^verbatim>\<open>_add_or_modify_column\<close> the uniqueness argument of the column renderer
  is \<^verbatim>\<open>UNIQUE\<close> exactly when \<open>modify\<close> is false, the \<^verbatim>\<open>unique\<close> entry of the
  descriptor is true and the dialect is not the one of SQLite; in every other case it is the
  empty string.  Hence \<^verbatim>\<open>add_column\<close> passes \<^verbatim>\<open>UNIQUE\<close> for a unique field on every
  dialect but SQLite, and \<^verbatim>\<open>modify_column\<close> never passes it and fills the
  \<^verbatim>\<open>MODIFY COLUMN\<close> template where \<^verbatim>\<open>add_column\<close> fills the \<^verbatim>\<open>ADD\<close> template.  The
  statement is about the calls that reach the renderer: default resolution has returned,
  \<^verbatim>\<open>db_field_types\<close> is a dictionary and the comment, if there is one, has been generated.
\<close>

theorem unique_only_on_add_outside_sqlite:
  fixes self :: BaseDDL and model :: model and fd :: py_dict
  defines "sg \<equiv> schema_generator self"
    and "db_column \<equiv> dict_get fd ''db_column'' PNone"
    and "description \<equiv> dict_get fd ''description'' PNone"
    and "nullable \<equiv> (if \<not> truthy (dict_get fd ''nullable'' PNone) then ''NOT NULL'' else '''')"
  assumes "fst (get_default self model fd) = Inr d"
    and "dict_get fd ''db_field_types'' PNone = PDict types"
    and "(if truthy description
          then column_comment_generator sg (db_table (meta model)) db_column description
          else Inr '''') = Inr comment"
  defines "field_type \<equiv>
      (case map_of types (DIALECT self) of Some v \<Rightarrow> v | None \<Rightarrow> dict_get types '''' PNone)"
    and "dflt \<equiv> (case d of None \<Rightarrow> '''' | Some s \<Rightarrow> s)"
  shows \<open>fst (add_or_modify_column self model fd is_pk modify) =
     (case create_string sg db_column field_type nullable
             (if \<not> modify \<and> truthy (dict_get fd ''unique'' PNone)
                 \<and> DIALECT self \<noteq> SqliteSchemaGenerator_DIALECT
              then ''UNIQUE'' else '''')
             comment is_pk dflt of
        Inl e \<Rightarrow> Inl e
      | Inr column \<Rightarrow>
          Inr (''ALTER TABLE "'' @ db_table (meta model) @ ''" ''
               @ (if modify then ''MODIFY COLUMN '' else ''ADD '') @ column))
   \<and> fst (add_column self model fd is_pk) =
     (case create_string sg db_column field_type nullable
             (if truthy (dict_get fd ''unique'' PNone)
                 \<and> DIALECT self \<noteq> SqliteSchemaGenerator_DIALECT
              then ''UNIQUE'' else '''')
             comment is_pk dflt of
        Inl e \<Rightarrow> Inl e
      | Inr column \<Rightarrow> Inr (''ALTER TABLE "'' @ db_table (meta model) @ ''" ADD '' @ column))
   \<and> fst (modify_column self model fd is_pk) =
     (case create_string sg db_column field_type nullable '''' comment is_pk dflt of
        Inl e \<Rightarrow> Inl e
      | Inr column \<Rightarrow>
          Inr (''ALTER TABLE "'' @ db_table (meta model) @ ''" MODIFY COLUMN '' @ column))\<close>
proof -
  note h = fst_add_or_modify_column [OF assms(5) assms(6) assms(7) [unfolded assms(1-3)]]
  show ?thesis
    unfolding assms(1-4,8,9) add_column_def modify_column_def
    by (simp add: h split: sum.split)
qed

theorem unique_only_on_add_outside_sqlite_witness:
  \<open>fst (add_column (example_ddl ''mysql'' example_generator) user_model email_field False)
     = Inr ''ALTER TABLE "user" ADD "email" VARCHAR(200) NOT NULL UNIQUE''
   \<and> fst (add_column (example_ddl ''sqlite'' example_generator) user_model email_field False)
     = Inr ''ALTER TABLE "user" ADD "email" VARCHAR(200) NOT NULL''
   \<and> fst (modify_column (example_ddl ''mysql'' example_generator) user_model email_field False)
     = Inr ''ALTER TABLE "user" MODIFY COLUMN "email" VARCHAR(200) NOT NULL''\<close>
proof -
  have g: "fst (get_default (example_ddl d example_generator) user_model email_field) = Inr None"
    for d
    by (simp add: fst_get_default email_field_def dict_get_def)
  have t: "dict_get email_field ''db_field_types'' PNone = PDict [('''', PStr ''VARCHAR(200)'')]"
    by (simp add: email_field_def dict_get_def)
  have c: "(if truthy (dict_get email_field ''description'' PNone)
          then column_comment_generator (schema_generator (example_ddl d example_generator))
                 (db_table (meta user_model))
                 (dict_get email_field ''db_column'' PNone)
                 (dict_get email_field ''description'' PNone)
          else Inr '''') = Inr ''''" for d
    by (simp add: email_field_def dict_get_def)
  show ?thesis
    using unique_only_on_add_outside_sqlite [OF g t c, of "''mysql''" False False]
      unique_only_on_add_outside_sqlite [OF g t c, of "''sqlite''" False False]
    by (simp add: example_ddl_def example_generator_def user_model_def email_field_def
          dict_get_def example_text_def example_pad_def SqliteSchemaGenerator_DIALECT_def)
qed

text \<open>
  Claim C8.  The type of the column that \<^verbatim>\<open>_add_or_modify_column\<close>, and so
  \<^verbatim>\<open>add_column\<close> and \<^verbatim>\<open>modify_column\<close>, hand to the renderer is the entry of
  \<^verbatim>\<open>db_field_types\<close> under the dialect of the compiler when there is one, and the entry
  under the empty key otherwise.  When the empty key is the only key, the type is that entry
  whatever the dialect is, so every compiler resolves the same type.
\<close>

theorem column_type_resolution:
  fixes self :: BaseDDL and model :: model and fd :: py_dict
  defines "sg \<equiv> schema_generator self"
    and "db_column \<equiv> dict_get fd ''db_column'' PNone"
    and "description \<equiv> dict_get fd ''description'' PNone"
    and "nullable \<equiv> (if \<not> truthy (dict_get fd ''nullable'' PNone) then ''NOT NULL'' else '''')"
    and "unique \<equiv> (\<lambda>modify. if \<not> modify \<and> truthy (dict_get fd ''unique'' PNone)
                           \<and> DIALECT self \<noteq> SqliteSchemaGenerator_DIALECT
                        then ''UNIQUE'' else '''')"
  assumes "fst (get_default self model fd) = Inr d"
    and "dict_get fd ''db_field_types'' PNone = PDict types"
    and "(if truthy description
          then column_comment_generator sg (db_table (meta model)) db_column description
          else Inr '''') = Inr comment"
  defines "dflt \<equiv> (case d of None \<Rightarrow> '''' | Some s \<Rightarrow> s)"
    and \<open>statement \<equiv> (\<lambda>modify column.
            ''ALTER TABLE "'' @ db_table (meta model) @ ''" ''
            @ (if modify then ''MODIFY COLUMN '' else ''ADD '') @ column)\<close>
  shows \<open>fst (add_or_modify_column self model fd is_pk modify) =
     (case create_string sg db_column
             (case map_of types (DIALECT self) of
                Some v \<Rightarrow> v
              | None \<Rightarrow> dict_get types '''' PNone)
             nullable (unique modify) comment is_pk dflt of
        Inl e \<Rightarrow> Inl e
      | Inr column \<Rightarrow> Inr (statement modify column))
   \<and> (fst ` set types = {''''} \<longrightarrow>
      fst (add_or_modify_column self model fd is_pk modify) =
        (case create_string sg db_column (dict_get types '''' PNone)
                nullable (unique modify) comment is_pk dflt of
           Inl e \<Rightarrow> Inl e
         | Inr column \<Rightarrow> Inr (statement modify column)))
   \<and> add_column self model fd is_pk = add_or_modify_column self model fd is_pk False
   \<and> modify_column self model fd is_pk = add_or_modify_column self model fd is_pk True\<close>
proof -
  note h = fst_add_or_modify_column [OF assms(6) assms(7) assms(8) [unfolded assms(1-3)]]
  have r: "fst ` set types = {''''} \<Longrightarrow>
      (case map_of types (DIALECT self) of Some v \<Rightarrow> v | None \<Rightarrow> dict_get types '''' PNone)
        = dict_get types '''' PNone"
    using resolve_only_fallback [of types "DIALECT self"] by simp
  show ?thesis
    unfolding assms(1-5,9,10) add_column_def modify_column_def
    by (simp add: h r split: sum.split)
qed

theorem column_type_resolution_witness:
  \<open>fst (add_column (example_ddl ''mysql'' example_generator) user_model bio_field False)
     = Inr ''ALTER TABLE "user" ADD "bio" LONGTEXT''
   \<and> fst (add_column (example_ddl ''postgres'' example_generator) user_model bio_field False)
     = Inr ''ALTER TABLE "user" ADD "bio" TEXT''
   \<and> fst (modify_column (example_ddl ''postgres'' example_generator) user_model email_field False)
     = Inr ''ALTER TABLE "user" MODIFY COLUMN "email" VARCHAR(200) NOT NULL''\<close>
proof -
  have g: "fst (get_default (example_ddl d example_generator) user_model bio_field)
             = Inr (Some '''')" for d
    by (simp add: fst_get_default bio_field_def dict_get_def)
  have t: "dict_get bio_field ''db_field_types'' PNone
             = PDict [('''', PStr ''TEXT''), (''mysql'', PStr ''LONGTEXT'')]"
    by (simp add: bio_field_def dict_get_def)
  have c: "(if truthy (dict_get bio_field ''description'' PNone)
          then column_comment_generator (schema_generator (example_ddl d example_generator))
                 (db_table (meta user_model))
                 (dict_get bio_field ''db_column'' PNone)
                 (dict_get bio_field ''description'' PNone)
          else Inr '''') = Inr ''''" for d
    by (simp add: bio_field_def dict_get_def)
  have g': "fst (get_default (example_ddl d example_generator) user_model email_field) = Inr None"
    for d
    by (simp add: fst_get_default email_field_def dict_get_def)
  have t': "dict_get email_field ''db_field_types'' PNone = PDict [('''', PStr ''VARCHAR(200)'')]"
    by (simp add: email_field_def dict_get_def)
  have c': "(if truthy (dict_get email_field ''description'' PNone)
          then column_comment_generator (schema_generator (example_ddl d example_generator))
                 (db_table (meta user_model))
                 (dict_get email_field ''db_column'' PNone)
                 (dict_get email_field ''description'' PNone)
          else Inr '''') = Inr ''''" for d
    by (simp add: email_field_def dict_get_def)
  show ?thesis
    using column_type_resolution [OF g t c, of "''mysql''" False False]
      column_type_resolution [OF g t c, of "''postgres''" False False]
      column_type_resolution [OF g' t' c', of "''postgres''" False True]
    by (simp add: example_ddl_def example_generator_def user_model_def email_field_def
          bio_field_def dict_get_def example_text_def example_pad_def
          SqliteSchemaGenerator_DIALECT_def)
qed

section \<open>Defaults that are not rendered\<close>

text \<open>
  Claim C3.  Let the default of the descriptor, a member of an enumeration being replaced by
  its value, be set (not \<^verbatim>\<open>None\<close>), or \<^verbatim>\<open>auto_now_add\<close> be true.  If the field type is
  \<^verbatim>\<open>UUIDField\<close>, \<^verbatim>\<open>TextField\<close> or \<^verbatim>\<open>JSONField\<close>, or \<^verbatim>\<open>is_default_function\<close>
  recognises the default, then \<^verbatim>\<open>_get_default\<close> returns the empty string, and
  \<^verbatim>\<open>add_column\<close> renders the column with an empty default argument: the statement is the
  \<^verbatim>\<open>ADD\<close> template filled with what the renderer makes of a column without default
  clause.
\<close>

theorem no_literal_default_is_empty:
  fixes self :: BaseDDL and model :: model and fd :: py_dict
  defines "sg \<equiv> schema_generator self"
    and "db_column \<equiv> dict_get fd ''db_column'' PNone"
    and "description \<equiv> dict_get fd ''description'' PNone"
    and "nullable \<equiv> (if \<not> truthy (dict_get fd ''nullable'' PNone) then ''NOT NULL'' else '''')"
    and "unique \<equiv> (if truthy (dict_get fd ''unique'' PNone)
                       \<and> DIALECT self \<noteq> SqliteSchemaGenerator_DIALECT
                    then ''UNIQUE'' else '''')"
    and "default_value \<equiv> enum_value (dict_get fd ''default'' PNone)"
  assumes "default_value \<noteq> PNone \<or> truthy (dict_get fd ''auto_now_add'' (PBool False))"
    and "dict_get fd ''field_type'' PNone
           \<in> {PStr ''UUIDField'', PStr ''TextField'', PStr ''JSONField''}
         \<or> is_default_function self default_value"
  shows \<open>fst (get_default self model fd) = Inr (Some '''')
   \<and> (dict_get fd ''db_field_types'' PNone = PDict types \<longrightarrow>
      (if truthy description
       then column_comment_generator sg (db_table (meta model)) db_column description
       else Inr '''') = Inr comment \<longrightarrow>
      fst (add_column self model fd is_pk) =
        (case create_string sg db_column
                (case map_of types (DIALECT self) of
                   Some v \<Rightarrow> v
                 | None \<Rightarrow> dict_get types '''' PNone)
                nullable unique comment is_pk '''' of
           Inl e \<Rightarrow> Inl e
         | Inr column \<Rightarrow>
             Inr (''ALTER TABLE "'' @ db_table (meta model) @ ''" ADD '' @ column)))\<close>
proof -
  have i: "in_strs v [''UUIDField'', ''TextField'', ''JSONField'']
             = (v \<in> {PStr ''UUIDField'', PStr ''TextField'', PStr ''JSONField''})" for v
    by (cases v) auto
  have g: "fst (get_default self model fd) = Inr (Some '''')"
    using assms(7,8) unfolding assms(6)
    by (simp add: fst_get_default Let_def i)
  show ?thesis
    unfolding assms(1-5) add_column_def
    using fst_add_or_modify_column [OF g, of types comment is_pk False]
    by (simp add: g split: sum.split)
qed

theorem no_literal_default_is_empty_witness:
  \<open>fst (get_default (example_ddl ''mysql'' example_generator) user_model bio_field)
     = Inr (Some '''')
   \<and> fst (add_column (example_ddl ''mysql'' example_generator) user_model bio_field False)
     = Inr ''ALTER TABLE "user" ADD "bio" LONGTEXT''
   \<and> fst (get_default (example_ddl ''mysql'' example_generator) user_model token_field)
     = Inr (Some '''')
   \<and> fst (add_column (example_ddl ''mysql'' example_generator) user_model token_field False)
     = Inr ''ALTER TABLE "user" ADD "token" VARCHAR(32) NOT NULL''\<close>
  using no_literal_default_is_empty
    [where self = "example_ddl ''mysql'' example_generator" and model = user_model
       and fd = bio_field and types = "[('''', PStr ''TEXT''), (''mysql'', PStr ''LONGTEXT'')]"
       and comment = "''''" and is_pk = False]
    no_literal_default_is_empty
    [where self = "example_ddl ''mysql'' example_generator" and model = user_model
       and fd = token_field and types = "[('''', PStr ''VARCHAR(32)'')]"
       and comment = "''''" and is_pk = False]
  by (simp add: example_ddl_def example_generator_def user_model_def
        bio_field_def token_field_def dict_get_def example_text_def example_pad_def
        SqliteSchemaGenerator_DIALECT_def)

text \<open>
  Claim C5.  When a descriptor reaches the rendering of a literal default and the default
  generator of the schema generator raises \<^verbatim>\<open>NotImplementedError\<close>, \<^verbatim>\<open>_get_default\<close>
  returns the empty string.  The callers do not see the exception:
  \<^verbatim>\<open>alter_column_default\<close> returns a statement, and \<^verbatim>\<open>add_column\<close> and
  \<^verbatim>\<open>modify_column\<close> behave, in result and in the descriptor they leave, as they do with a
  generator that returns the empty string instead of raising.
\<close>

theorem unsupported_default_recovered:
  fixes self :: BaseDDL and model :: model and fd :: py_dict
  defines "sg \<equiv> schema_generator self"
    and "default_value \<equiv> enum_value (dict_get fd ''default'' PNone)"
    and "auto_now_add \<equiv> dict_get fd ''auto_now_add'' (PBool False)"
    and "self' \<equiv> self \<lparr> schema_generator :=
            (schema_generator self) \<lparr> column_default_generator :=
               (\<lambda>table column value auto_now_add auto_now. Inr '''') \<rparr> \<rparr>"
  assumes "default_value \<noteq> PNone \<or> truthy auto_now_add"
    and "dict_get fd ''field_type'' PNone
           \<notin> {PStr ''UUIDField'', PStr ''TextField'', PStr ''JSONField''}"
    and "\<not> is_default_function self default_value"
    and "escape_default_value sg default_value = Inr escaped"
    and "column_default_generator sg (db_table (meta model)) (dict_get fd ''db_column'' PNone)
           escaped auto_now_add (dict_get fd ''auto_now'' (PBool False))
         = Inl NotImplementedError"
  shows \<open>fst (get_default self model fd) = Inr (Some '''')
   \<and> fst (alter_column_default self model fd) =
       Inr (''ALTER TABLE "'' @ db_table (meta model) @ ''" ALTER COLUMN "''
            @ py_str self (dict_get fd ''db_column'' PNone) @ ''" SET'')
   \<and> add_column self model fd is_pk = add_column self' model fd is_pk
   \<and> modify_column self model fd is_pk = modify_column self' model fd is_pk\<close>
proof -
  have i: "in_strs v [''UUIDField'', ''TextField'', ''JSONField'']
             = (v \<in> {PStr ''UUIDField'', PStr ''TextField'', PStr ''JSONField''})" for v
    by (cases v) auto
  have g: "fst (get_default self model fd) = Inr (Some '''')"
    using assms(5-9) unfolding assms(1-3)
    by (simp add: fst_get_default Let_def i)
  have g': "fst (get_default self' model fd) = Inr (Some '''')"
    using assms(5-8) unfolding assms(1-4)
    by (simp add: fst_get_default Let_def i)
  have p: "get_default self model fd = (Inr (Some ''''), fd)"
    using get_default_pair [of self model fd] g by simp
  have p': "get_default self' model fd = (Inr (Some ''''), fd)"
    using get_default_pair [of self' model fd] g' by simp
  have c: "column_comment_generator (schema_generator self')
             = column_comment_generator (schema_generator self)"
      and s: "create_string (schema_generator self') = create_string (schema_generator self)"
      and d: "DIALECT self' = DIALECT self"
    unfolding assms(4) by simp_all
  have e: "add_or_modify_column self model fd is_pk modify
             = add_or_modify_column self' model fd is_pk modify" for modify
    unfolding add_or_modify_column_def st_get_def Let_def case_prod_conv
    unfolding p p' c s d
    by simp
  show ?thesis
    using e by (simp add: g fst_alter_column_default add_column_def modify_column_def)
qed

theorem unsupported_default_recovered_witness:
  \<open>column_default_generator base_generator ''user'' (PStr ''status'')
       (PStr (CHR 0x27 # ''active'' @ [CHR 0x27])) (PBool False) (PBool False)
     = Inl NotImplementedError
   \<and> fst (get_default (example_ddl ''sql'' base_generator) user_model status_field)
     = Inr (Some '''')
   \<and> fst (alter_column_default (example_ddl ''sql'' base_generator) user_model status_field)
     = Inr ''ALTER TABLE "user" ALTER COLUMN "status" SET''
   \<and> fst (add_column (example_ddl ''sql'' base_generator) user_model status_field False)
     = Inr ''ALTER TABLE "user" ADD "status" VARCHAR(8) NOT NULL''\<close>
proof -
  have e: "escape_default_value (schema_generator (example_ddl ''sql'' base_generator))
             (enum_value (dict_get status_field ''default'' PNone))
           = Inr (PStr (CHR 0x27 # ''active'' @ [CHR 0x27]))"
    by (simp add: example_ddl_def base_generator_def example_generator_def status_field_def
          dict_get_def)
  have n: "column_default_generator (schema_generator (example_ddl ''sql'' base_generator))
             (db_table (meta user_model)) (dict_get status_field ''db_column'' PNone)
             (PStr (CHR 0x27 # ''active'' @ [CHR 0x27]))
             (dict_get status_field ''auto_now_add'' (PBool False))
             (dict_get status_field ''auto_now'' (PBool False))
           = Inl NotImplementedError"
    by (simp add: example_ddl_def base_generator_def)
  have r: "enum_value (dict_get status_field ''default'' PNone) \<noteq> PNone
           \<or> truthy (dict_get status_field ''auto_now_add'' (PBool False))"
    by (simp add: status_field_def dict_get_def)
  have f: "dict_get status_field ''field_type'' PNone
             \<notin> {PStr ''UUIDField'', PStr ''TextField'', PStr ''JSONField''}"
    by (simp add: status_field_def dict_get_def)
  have m: "\<not> is_default_function (example_ddl ''sql'' base_generator)
               (enum_value (dict_get status_field ''default'' PNone))"
    by (simp add: example_ddl_def status_field_def dict_get_def)
  note u = unsupported_default_recovered [OF r f m e n, of False]
  have t: "dict_get status_field ''db_field_types'' PNone = PDict [('''', PStr ''VARCHAR(8)'')]"
    by (simp add: status_field_def dict_get_def)
  have c: "(if truthy (dict_get status_field ''description'' PNone)
          then column_comment_generator (schema_generator (example_ddl ''sql'' base_generator))
                 (db_table (meta user_model))
                 (dict_get status_field ''db_column'' PNone)
                 (dict_get status_field ''description'' PNone)
          else Inr '''') = Inr ''''"
    by (simp add: status_field_def dict_get_def)
  have a: "fst (add_column (example_ddl ''sql'' base_generator) user_model status_field False)
     = Inr ''ALTER TABLE \"user\" ADD \"status\" VARCHAR(8) NOT NULL''"
    using fst_add_or_modify_column [OF conjunct1 [OF u] t c, of False False]
    by (simp add: add_column_def example_ddl_def base_generator_def example_generator_def
          user_model_def status_field_def dict_get_def example_text_def example_pad_def
          SqliteSchemaGenerator_DIALECT_def)
  show ?thesis
    using u a
    by (simp add: base_generator_def user_model_def status_field_def dict_get_def py_str_def)
qed

end
